theory Spec2Isabelle
  imports Main "HOL-Library.Char_ord" "HOL-Library.List_Lexorder"
begin

section \<open>The todo application of class-19/demo/todo-app/server.js\<close>

text \<open>
  The server is an Express application over one PostgreSQL connection. Every route
  handler issues one parameterised SQL statement and then renders a view or redirects.
  The embedding follows the second, complete version of server.js (the one with the
  user cookie and the \<open>user_id\<close> column) and the migration script that creates the
  \<open>users\<close> table.

  What the JavaScript leaves to its libraries is made explicit here:
  \<^item> a JavaScript value is a \<open>jsval\<close>;
  \<^item> the connection \<open>client\<close> is the state of the two tables, and a statement is a
    function on that state whose result is either a database error (the promise
    rejects) or the rows (the promise resolves);
  \<^item> the Express response is a record of what the handler did to it;
  \<^item> \<open>JSON.parse\<close>, \<open>JSON.stringify\<close> and the server's integer input conversion are
    not interpreted: the functions that use them take them as parameters.
\<close>

subsection \<open>JavaScript values\<close>

text \<open>The values JSON can denote, and \<open>undefined\<close>; a number is an integer.\<close>

datatype jsval =
    JUndefined
  | JNull
  | JBool bool
  | JNum int
  | JStr string
  | JArr "jsval list"
  | JObj "(string \<times> jsval) list"

text \<open>Truthiness, as \<open>&&\<close>, \<open>||\<close> and \<open>!\<close> read it.\<close>

fun truthy :: "jsval \<Rightarrow> bool" where
  "truthy JUndefined = False"
| "truthy JNull = False"
| "truthy (JBool b) = b"
| "truthy (JNum n) = (n \<noteq> 0)"
| "truthy (JStr s) = (s \<noteq> [])"
| "truthy (JArr vs) = True"
| "truthy (JObj fs) = True"

text \<open>What a handler can throw or pass on as an error.\<close>

datatype db_error =
    CharacterNotInRepertoire string
  | InvalidTextRepresentation jsval
  | NumericValueOutOfRange jsval
  | NotNullViolation string
  | StringDataRightTruncation string
  | UniqueViolation string
  | ForeignKeyViolation string

datatype err =
    Message string
  | DatabaseError db_error
  | TypeError string
  | SyntaxError string

text \<open>
  Property access \<open>v.k\<close> for the keys the handlers read (\<open>id\<close>): reading a property
  of \<open>undefined\<close> or \<open>null\<close> throws a TypeError, an object gives the property or
  \<open>undefined\<close>, and the other values have no such property of their own.
\<close>

fun js_get :: "jsval \<Rightarrow> string \<Rightarrow> err + jsval" where
  "js_get JUndefined k = Inl (TypeError k)"
| "js_get JNull k = Inl (TypeError k)"
| "js_get (JObj fs) k = Inr (case map_of fs k of Some v \<Rightarrow> v | None \<Rightarrow> JUndefined)"
| "js_get v k = Inr JUndefined"

text \<open>A value of \<open>request.query\<close>, \<open>request.body\<close> or \<open>request.params\<close>: a string, or absent.\<close>

definition js_of :: "string option \<Rightarrow> jsval" where
  "js_of x = (case x of None \<Rightarrow> JUndefined | Some s \<Rightarrow> JStr s)"

text \<open>\<open>x || d\<close> on such a value: the default replaces an absent or empty string.\<close>

definition or_default :: "string option \<Rightarrow> string \<Rightarrow> string" where
  "or_default x d = (case x of None \<Rightarrow> d | Some s \<Rightarrow> if s = [] then d else s)"

text \<open>Decimal text of a number, as a template literal writes it.\<close>

definition digit_char :: "nat \<Rightarrow> char" where
  "digit_char d = char_of (48 + d)"

function decimal_nat :: "nat \<Rightarrow> string" where
  "decimal_nat n = (if n < 10 then [digit_char n] else decimal_nat (n div 10) @ [digit_char (n mod 10)])"
  by pat_completeness auto
termination
  by (relation "measure (\<lambda>n. n)") auto

definition decimal :: "int \<Rightarrow> string" where
  "decimal i = (if i < 0 then CHR ''-'' # decimal_nat (nat (- i)) else decimal_nat (nat i))"

text \<open>A template literal \<open>${x}\<close> over a request value: absent prints as \<open>undefined\<close>.\<close>

definition template :: "string option \<Rightarrow> string" where
  "template x = (case x of None \<Rightarrow> ''undefined'' | Some s \<Rightarrow> s)"

subsection \<open>The database\<close>

text \<open>
  \<open>users(id SERIAL PRIMARY KEY, username VARCHAR(100) NOT NULL UNIQUE)\<close> is the
  migration script's table. The \<open>tasks\<close> table is created elsewhere; the script adds
  \<open>user_id INT\<close> and its foreign key to it.
\<close>

record user_row =
  u_id :: int
  u_username :: string

text \<open>
  Modelled from the spec: the \<open>CREATE TABLE\<close> of \<open>tasks\<close> is not among the sources.
  The columns are those the statements of server.js name (\<open>id\<close>, \<open>title\<close>,
  \<open>description\<close>, \<open>category\<close>, \<open>contact\<close>, \<open>status\<close>, \<open>user_id\<close>) and the spec's
  due date; the identifier is an integer the table assigns, the text columns and the
  due date may be NULL, and a date is counted in days.
\<close>

record task_row =
  t_id :: int
  t_title :: "string option"
  t_description :: "string option"
  t_category :: "string option"
  t_contact :: "string option"
  t_status :: "string option"
  t_due :: "int option"
  t_user_id :: "int option"

text \<open>
  The connection: the rows of both tables in the order a scan yields them, the last
  value of each identifier sequence, and the server's reading of a text as an integer
  numeral (\<open>None\<close>: the text is not a numeral).
\<close>

record client =
  int4in :: "string \<Rightarrow> int option"
  users :: "user_row list"
  tasks :: "task_row list"
  users_id_seq :: int
  tasks_id_seq :: int

text \<open>
  A text parameter. The driver sends \<open>undefined\<close> as NULL and a string as its text;
  the server refuses a text that holds the character U+0000 and takes every other
  text as it is.
\<close>

definition as_text :: "string option \<Rightarrow> db_error + string option" where
  "as_text p =
     (case p of
        None \<Rightarrow> Inr None
      | Some s \<Rightarrow> if CHR 0x00 \<in> set s then Inl (CharacterNotInRepertoire s) else Inr (Some s))"

text \<open>The text parameters of a statement are read in their order; the first refusal ends it.\<close>

fun bind_texts :: "string option list \<Rightarrow> db_error + unit" where
  "bind_texts [] = Inr ()"
| "bind_texts (p # ps) = (case as_text p of Inl e \<Rightarrow> Inl e | Inr accepted \<Rightarrow> bind_texts ps)"

text \<open>
  A parameter compared with or stored into an integer column. The driver sends
  \<open>undefined\<close> and \<open>null\<close> as NULL and everything else as text; the server then reads
  the text as an integer or raises an error: the text must hold no U+0000, be a
  numeral, and fit four bytes. A number is sent as its decimal text, which from
  \<open>1e21\<close> on is written with an exponent and is no numeral; the text of a boolean, an
  array or an object is never a numeral.
\<close>

definition fits_int4 :: "int \<Rightarrow> bool" where
  "fits_int4 n = (- 2147483648 \<le> n \<and> n \<le> 2147483647)"

fun as_int4 :: "client \<Rightarrow> jsval \<Rightarrow> db_error + int option" where
  "as_int4 c JUndefined = Inr None"
| "as_int4 c JNull = Inr None"
| "as_int4 c (JNum n) =
     (if 1000000000000000000000 \<le> \<bar>n\<bar> then Inl (InvalidTextRepresentation (JNum n))
      else if fits_int4 n then Inr (Some n)
      else Inl (NumericValueOutOfRange (JNum n)))"
| "as_int4 c (JStr s) =
     (if CHR 0x00 \<in> set s then Inl (CharacterNotInRepertoire s)
      else case int4in c s of
             None \<Rightarrow> Inl (InvalidTextRepresentation (JStr s))
           | Some n \<Rightarrow> if fits_int4 n then Inr (Some n) else Inl (NumericValueOutOfRange (JStr s)))"
| "as_int4 c v = Inl (InvalidTextRepresentation v)"

text \<open>SQL equality in a WHERE clause: a comparison with NULL selects nothing.\<close>

definition sql_eq :: "'a option \<Rightarrow> 'a option \<Rightarrow> bool" where
  "sql_eq a b = (a \<noteq> None \<and> a = b)"

text \<open>\<open>ORDER BY e ASC\<close>: the rows sorted by the value of the expression \<open>e\<close> in each row.\<close>

definition order_by_asc :: "(task_row \<Rightarrow> 'k::linorder) \<Rightarrow> task_row list \<Rightarrow> task_row list" where
  "order_by_asc e rows = sort_key e rows"

text \<open>
  The statement of \<open>getTasks\<close>:
  \<^verbatim>\<open>SELECT * FROM Tasks WHERE user_id = $2 ORDER BY $1 ASC;\<close>
  The sort expression is the parameter \<open>$1\<close> itself, a text value that is the same in
  every row; it is not the column that the text names.
\<close>

definition select_tasks :: "client \<Rightarrow> string \<Rightarrow> jsval \<Rightarrow> db_error + task_row list" where
  "select_tasks c p1 p2 =
     (case as_text (Some p1) of
        Inl e \<Rightarrow> Inl e
      | Inr accepted \<Rightarrow>
         (case as_int4 c p2 of
            Inl e \<Rightarrow> Inl e
          | Inr u \<Rightarrow>
              Inr (order_by_asc (\<lambda>row. p1) (filter (\<lambda>row. sql_eq (t_user_id row) u) (tasks c)))))"

text \<open>
  The statement of \<open>getOneTask\<close>:
  \<^verbatim>\<open>SELECT * FROM Tasks WHERE id = $1 AND user_id = $2 LIMIT 1;\<close>
\<close>

definition select_one_task :: "client \<Rightarrow> jsval \<Rightarrow> jsval \<Rightarrow> db_error + task_row list" where
  "select_one_task c p1 p2 =
     (case as_int4 c p1 of
        Inl e \<Rightarrow> Inl e
      | Inr n \<Rightarrow>
         (case as_int4 c p2 of
            Inl e \<Rightarrow> Inl e
          | Inr u \<Rightarrow>
              Inr (take 1 (filter (\<lambda>row. sql_eq (Some (t_id row)) n \<and> sql_eq (t_user_id row) u) (tasks c)))))"

subsection \<open>The response\<close>

datatype view_model =
    NoViewModel
  | TasksModel "task_row list"
  | TaskModel "task_row option"
  | ErrorModel err

datatype sent =
    NotSent
  | Rendered string view_model
  | Redirected string
  | SentText string

datatype cookie_op = SetCookie string string | ClearCookie string

record response =
  statusCode :: nat
  cookie_ops :: "cookie_op list"
  locals_user :: jsval
  sent :: sent

definition status :: "nat \<Rightarrow> response \<Rightarrow> response" where
  "status n res = res\<lparr>statusCode := n\<rparr>"

definition render :: "string \<Rightarrow> view_model \<Rightarrow> response \<Rightarrow> response" where
  "render view vm res = res\<lparr>sent := Rendered view vm\<rparr>"

definition redirect :: "string \<Rightarrow> response \<Rightarrow> response" where
  "redirect url res = res\<lparr>statusCode := 302, sent := Redirected url\<rparr>"

definition send :: "string \<Rightarrow> response \<Rightarrow> response" where
  "send txt res = res\<lparr>sent := SentText txt\<rparr>"

definition cookie :: "string \<Rightarrow> string \<Rightarrow> response \<Rightarrow> response" where
  "cookie name val res = res\<lparr>cookie_ops := cookie_ops res @ [SetCookie name val]\<rparr>"

definition clearCookie :: "string \<Rightarrow> response \<Rightarrow> response" where
  "clearCookie name res = res\<lparr>cookie_ops := cookie_ops res @ [ClearCookie name]\<rparr>"

text \<open>
  What a handler leaves behind: a response, or a rejected promise that nothing
  handles (no response is written for the request).
\<close>

datatype outcome = Responded response | UnhandledRejection err

subsection \<open>The request\<close>

text \<open>
  The request as the handlers read it, after the body parsers, the method override and
  the cookie parser: cookies, query parameters, form fields and path parameters are
  texts, and \<open>user\<close> is what the identity middleware stored.
\<close>

record request =
  cookies :: "string \<rightharpoonup> string"
  query :: "string \<rightharpoonup> string"
  body :: "string \<rightharpoonup> string"
  params :: "string \<rightharpoonup> string"
  user :: jsval

subsection \<open>Error handling\<close>

text \<open>
  \<^verbatim>\<open>function handleError(err, response) {
    let viewModel = { error: err };
    response.status(500).render('pages/error-view', viewModel); }\<close>
\<close>

definition handleError :: "err \<Rightarrow> response \<Rightarrow> response" where
  "handleError e res = render ''pages/error-view'' (ErrorModel e) (status 500 res)"

text \<open>
  The error handler middleware \<^verbatim>\<open>app.use((err, req, res, next) => { handleError(err, res); })\<close>:
  it receives what a handler throws synchronously and what a handler passes to \<open>next\<close>.
\<close>

definition error_handler :: "err \<Rightarrow> response \<Rightarrow> response" where
  "error_handler e res = handleError e res"

subsection \<open>Route handlers that read tasks\<close>

definition getTasks :: "client \<Rightarrow> request \<Rightarrow> response \<Rightarrow> outcome" where
  "getTasks c req res =
     (let sort_by = query req ''sort_by'' in
      case js_get (user req) ''id'' of
        Inl thrown \<Rightarrow> Responded (error_handler thrown res)
      | Inr uid \<Rightarrow>
         (case select_tasks c (or_default sort_by ''due'') uid of
            Inr rows \<Rightarrow> Responded (render ''index'' (TasksModel rows) res)
          | Inl e \<Rightarrow> Responded (handleError (DatabaseError e) res)))"

definition getOneTask :: "client \<Rightarrow> request \<Rightarrow> response \<Rightarrow> outcome" where
  "getOneTask c req res =
     (let task_id = params req ''task_id'' in
      case js_get (user req) ''id'' of
        Inl thrown \<Rightarrow> Responded (error_handler thrown res)
      | Inr uid \<Rightarrow>
         (case select_one_task c (js_of task_id) uid of
            Inr rows \<Rightarrow>
              (case rows of
                 [] \<Rightarrow> Responded (handleError (Message ''Task Not Found'') res)
               | row # rest \<Rightarrow> Responded (render ''pages/detail-view'' (TaskModel (Some row)) res))
          | Inl e \<Rightarrow> Responded (handleError (DatabaseError e) res)))"

text \<open>
  The statement of \<open>editOneTask\<close>:
  \<^verbatim>\<open>SELECT * FROM Tasks WHERE Id = $1 AND user_id = $2\<close>
\<close>

definition select_task_for_edit :: "client \<Rightarrow> jsval \<Rightarrow> jsval \<Rightarrow> db_error + task_row list" where
  "select_task_for_edit c p1 p2 =
     (case as_int4 c p1 of
        Inl e \<Rightarrow> Inl e
      | Inr n \<Rightarrow>
         (case as_int4 c p2 of
            Inl e \<Rightarrow> Inl e
          | Inr u \<Rightarrow>
              Inr (filter (\<lambda>row. sql_eq (Some (t_id row)) n \<and> sql_eq (t_user_id row) u) (tasks c))))"

text \<open>\<open>rows[0]\<close>: the first row, or \<open>undefined\<close>.\<close>

definition first :: "'a list \<Rightarrow> 'a option" where
  "first rows = (case rows of [] \<Rightarrow> None | row # rest \<Rightarrow> Some row)"

text \<open>
  \<open>editOneTask\<close> ends its promise chain with \<open>then\<close>: it has no \<open>catch\<close>, so a rejected
  statement stays unhandled.
\<close>

definition editOneTask :: "client \<Rightarrow> request \<Rightarrow> response \<Rightarrow> outcome" where
  "editOneTask c req res =
     (let task_id = params req ''task_id'' in
      case js_get (user req) ''id'' of
        Inl thrown \<Rightarrow> Responded (error_handler thrown res)
      | Inr uid \<Rightarrow>
         (case select_task_for_edit c (js_of task_id) uid of
            Inr rows \<Rightarrow>
              (let task = first rows in
               Responded (render ''pages/edit-view'' (TaskModel task) res))
          | Inl e \<Rightarrow> UnhandledRejection (DatabaseError e)))"

definition showAddTaskForm :: "request \<Rightarrow> response \<Rightarrow> response" where
  "showAddTaskForm req res = render ''pages/add-view'' NoViewModel res"

subsection \<open>Route handlers that change tasks\<close>

text \<open>
  The statement of \<open>addTask\<close>:
  \<^verbatim>\<open>INSERT INTO tasks (title, description, category, contact, status, user_id)
  VALUES ($1, $2, $3, $4, $5, $6) RETURNING Id\<close>
  The new row takes the next value of the identifier sequence, which must fit four
  bytes; its owner must be NULL or the identifier of a user (the foreign key
  \<open>fk_user_id\<close>).
\<close>

definition insert_task ::
  "client \<Rightarrow> string option \<Rightarrow> string option \<Rightarrow> string option \<Rightarrow> string option \<Rightarrow> string option \<Rightarrow> jsval
     \<Rightarrow> client \<times> (db_error + task_row list)" where
  "insert_task c p1 p2 p3 p4 p5 p6 =
     (case bind_texts [p1, p2, p3, p4, p5] of
        Inl e \<Rightarrow> (c, Inl e)
      | Inr accepted \<Rightarrow>
         (case as_int4 c p6 of
            Inl e \<Rightarrow> (c, Inl e)
          | Inr u \<Rightarrow>
             (let new_id = tasks_id_seq c + 1;
                  c1 = c\<lparr>tasks_id_seq := new_id\<rparr>;
                  row = \<lparr>t_id = new_id, t_title = p1, t_description = p2, t_category = p3,
                         t_contact = p4, t_status = p5, t_due = None, t_user_id = u\<rparr>
              in if \<not> fits_int4 new_id then (c, Inl (NumericValueOutOfRange (JNum new_id)))
                 else if u \<noteq> None \<and> u \<notin> set (map (\<lambda>r. Some (u_id r)) (users c))
                 then (c1, Inl (ForeignKeyViolation ''fk_user_id''))
                 else (c1\<lparr>tasks := tasks c @ [row]\<rparr>, Inr [row]))))"

definition addTask :: "client \<Rightarrow> request \<Rightarrow> response \<Rightarrow> client \<times> outcome" where
  "addTask c req res =
     (let title = body req ''title''; description = body req ''description'';
          category = body req ''category''; contact = body req ''contact'';
          status_field = body req ''status''
      in case js_get (user req) ''id'' of
        Inl thrown \<Rightarrow> (c, Responded (error_handler thrown res))
      | Inr uid \<Rightarrow>
         (case insert_task c title description category contact status_field uid of
            (c1, Inr rows) \<Rightarrow>
              (case first rows of
                 None \<Rightarrow> (c1, Responded (handleError (TypeError ''id'') res))
               | Some row \<Rightarrow> (c1, Responded (redirect (''/tasks/'' @ decimal (t_id row)) res)))
          | (c1, Inl e) \<Rightarrow> (c1, Responded (handleError (DatabaseError e) res))))"

text \<open>
  The statement of \<open>deleteOneTask\<close>:
  \<^verbatim>\<open>DELETE FROM Tasks WHERE Id = $1 AND user_id = $2\<close>
\<close>

definition delete_task :: "client \<Rightarrow> jsval \<Rightarrow> jsval \<Rightarrow> client \<times> (db_error + unit)" where
  "delete_task c p1 p2 =
     (case as_int4 c p1 of
        Inl e \<Rightarrow> (c, Inl e)
      | Inr n \<Rightarrow>
         (case as_int4 c p2 of
            Inl e \<Rightarrow> (c, Inl e)
          | Inr u \<Rightarrow>
              (c\<lparr>tasks := filter (\<lambda>row. \<not> (sql_eq (Some (t_id row)) n \<and> sql_eq (t_user_id row) u)) (tasks c)\<rparr>,
               Inr ())))"

definition deleteOneTask :: "client \<Rightarrow> request \<Rightarrow> response \<Rightarrow> client \<times> outcome" where
  "deleteOneTask c req res =
     (case js_get (user req) ''id'' of
        Inl thrown \<Rightarrow> (c, Responded (error_handler thrown res))
      | Inr uid \<Rightarrow>
         (case delete_task c (js_of (params req ''task_id'')) uid of
            (c1, Inr done_) \<Rightarrow> (c1, Responded (redirect ''/'' res))
          | (c1, Inl e) \<Rightarrow> (c1, Responded (handleError (DatabaseError e) res))))"

text \<open>
  The statement of \<open>updateOneTask\<close>:
  \<^verbatim>\<open>UPDATE Tasks SET Title = $1, Description = $2, Category = $3, Contact = $4, Status = $5
  WHERE Id = $6 AND user_id = $7\<close>
  The rows that do not match stay where they are; the new version of a row that
  matches is written after them.
\<close>

definition update_task ::
  "client \<Rightarrow> string option \<Rightarrow> string option \<Rightarrow> string option \<Rightarrow> string option \<Rightarrow> string option
     \<Rightarrow> jsval \<Rightarrow> jsval \<Rightarrow> client \<times> (db_error + unit)" where
  "update_task c p1 p2 p3 p4 p5 p6 p7 =
     (case bind_texts [p1, p2, p3, p4, p5] of
        Inl e \<Rightarrow> (c, Inl e)
      | Inr accepted \<Rightarrow>
         (case as_int4 c p6 of
            Inl e \<Rightarrow> (c, Inl e)
          | Inr n \<Rightarrow>
             (case as_int4 c p7 of
                Inl e \<Rightarrow> (c, Inl e)
              | Inr u \<Rightarrow>
                  (c\<lparr>tasks :=
                       filter (\<lambda>row. \<not> (sql_eq (Some (t_id row)) n \<and> sql_eq (t_user_id row) u)) (tasks c)
                       @ map (\<lambda>row. row\<lparr>t_title := p1, t_description := p2, t_category := p3,
                                          t_contact := p4, t_status := p5\<rparr>)
                           (filter (\<lambda>row. sql_eq (Some (t_id row)) n \<and> sql_eq (t_user_id row) u) (tasks c))\<rparr>,
                   Inr ()))))"

text \<open>\<open>updateOneTask\<close> passes a rejection to \<open>next\<close>, which is the error handler middleware.\<close>

definition updateOneTask :: "client \<Rightarrow> request \<Rightarrow> response \<Rightarrow> client \<times> outcome" where
  "updateOneTask c req res =
     (let task_id = params req ''task_id'';
          title = body req ''title''; description = body req ''description'';
          category = body req ''category''; contact = body req ''contact'';
          status_field = body req ''status''
      in case js_get (user req) ''id'' of
        Inl thrown \<Rightarrow> (c, Responded (error_handler thrown res))
      | Inr uid \<Rightarrow>
         (case update_task c title description category contact status_field (js_of task_id) uid of
            (c1, Inr done_) \<Rightarrow> (c1, Responded (redirect (''/tasks/'' @ template task_id) res))
          | (c1, Inl e) \<Rightarrow> (c1, Responded (error_handler (DatabaseError e) res))))"

subsection \<open>Registration, login and logout\<close>

text \<open>
  A value stored into \<open>VARCHAR(n)\<close>: longer text is an error, unless all that exceeds
  the length is spaces, which are cut off.
\<close>

definition varchar :: "nat \<Rightarrow> string \<Rightarrow> string option" where
  "varchar n s =
     (if length s \<le> n then Some s
      else if filter (\<lambda>ch. ch \<noteq> CHR '' '') (drop n s) = [] then Some (take n s)
      else None)"

text \<open>
  The statement of \<open>createUser\<close>:
  \<^verbatim>\<open>INSERT INTO users (username) VALUES ($1) RETURNING id, username;\<close>
  The name is read as a text parameter and cut to the column's length first. Then
  the identifier is the next value of the sequence, which must fit four bytes and is
  used up whether or not the row is accepted; the row is refused when the name is
  NULL or taken, or when the identifier is taken.
\<close>

definition insert_user :: "client \<Rightarrow> string option \<Rightarrow> client \<times> (db_error + user_row list)" where
  "insert_user c p1 =
     (let new_id = users_id_seq c + 1;
          c1 = c\<lparr>users_id_seq := new_id\<rparr>
      in case as_text p1 of
           Inl e \<Rightarrow> (c, Inl e)
         | Inr None \<Rightarrow>
             if \<not> fits_int4 new_id then (c, Inl (NumericValueOutOfRange (JNum new_id)))
             else (c1, Inl (NotNullViolation ''username''))
         | Inr (Some name) \<Rightarrow>
            (case varchar 100 name of
               None \<Rightarrow> (c, Inl (StringDataRightTruncation ''username''))
             | Some stored \<Rightarrow>
                 if \<not> fits_int4 new_id then (c, Inl (NumericValueOutOfRange (JNum new_id)))
                 else if new_id \<in> set (map u_id (users c)) then (c1, Inl (UniqueViolation ''users_pkey''))
                 else if stored \<in> set (map u_username (users c))
                   then (c1, Inl (UniqueViolation ''users_username_key''))
                 else (let row = \<lparr>u_id = new_id, u_username = stored\<rparr>
                       in (c1\<lparr>users := users c @ [row]\<rparr>, Inr [row]))))"

text \<open>A row of \<open>id, username\<close> as the JavaScript object the driver returns; no row is \<open>undefined\<close>.\<close>

definition js_user :: "user_row option \<Rightarrow> jsval" where
  "js_user r =
     (case r of
        None \<Rightarrow> JUndefined
      | Some row \<Rightarrow> JObj [(''id'', JNum (u_id row)), (''username'', JStr (u_username row))])"

text \<open>
  \<open>JSON_stringify\<close> stands for \<open>JSON.stringify\<close> followed by the conversion to text that
  \<open>response.cookie\<close> applies to its value.
\<close>

definition createUser :: "(jsval \<Rightarrow> string) \<Rightarrow> client \<Rightarrow> request \<Rightarrow> response \<Rightarrow> client \<times> outcome" where
  "createUser JSON_stringify c req res =
     (let username = body req ''username'' in
      case insert_user c username of
        (c1, Inr rows) \<Rightarrow>
          (let user_row = first rows
           in (c1, Responded (redirect ''/'' (cookie ''user'' (JSON_stringify (js_user user_row)) res))))
      | (c1, Inl e) \<Rightarrow> (c1, Responded (handleError (DatabaseError e) res)))"

text \<open>
  The statement of \<open>doLogin\<close>:
  \<^verbatim>\<open>SELECT id, username FROM users WHERE username = $1;\<close>
\<close>

definition select_user :: "client \<Rightarrow> string option \<Rightarrow> db_error + user_row list" where
  "select_user c p1 =
     (case as_text p1 of
        Inl e \<Rightarrow> Inl e
      | Inr name \<Rightarrow> Inr (filter (\<lambda>row. sql_eq (Some (u_username row)) name) (users c)))"

definition doLogin :: "(jsval \<Rightarrow> string) \<Rightarrow> client \<Rightarrow> request \<Rightarrow> response \<Rightarrow> outcome" where
  "doLogin JSON_stringify c req res =
     (let username = body req ''username'' in
      case select_user c username of
        Inr rows \<Rightarrow>
          (let user_row = first rows
           in if \<not> truthy (js_user user_row)
              then Responded (render ''pages/error-view'' (ErrorModel (Message ''User not found!''))
                                (status 400 res))
              else Responded (redirect ''/'' (cookie ''user'' (JSON_stringify (js_user user_row)) res)))
      | Inl e \<Rightarrow> Responded (handleError (DatabaseError e) res))"

definition showRegister :: "request \<Rightarrow> response \<Rightarrow> response" where
  "showRegister req res = render ''pages/register'' NoViewModel res"

definition showLogin :: "request \<Rightarrow> response \<Rightarrow> response" where
  "showLogin req res = render ''pages/login'' NoViewModel res"

definition doLogout :: "request \<Rightarrow> response \<Rightarrow> response" where
  "doLogout req res = redirect ''/'' (clearCookie ''user'' res)"

subsection \<open>The identity middleware\<close>

text \<open>
  \<^verbatim>\<open>app.use((request, response, next) => {
    try {
      const { user } = request.cookies;
      request.user = user && JSON.parse(user) || {};
      console.log('user', request.user);
    }
    catch (err) {
      console.warn('error parsing user cookie', err);
      request.user = {};
    }
    response.locals.user = request.user;
    next();
  });\<close>
  \<open>JSON_parse\<close> is \<open>JSON.parse\<close> on a cookie's text: \<open>None\<close> when it throws.
\<close>

datatype console_line = Log string jsval | Warn string err

datatype next_call = Next | NextError err

text \<open>\<open>user && JSON.parse(user)\<close>: the cookie itself when it is absent or empty, else its parse.\<close>

definition and_parse :: "(string \<Rightarrow> jsval option) \<Rightarrow> string option \<Rightarrow> err + jsval" where
  "and_parse JSON_parse user_cookie =
     (case user_cookie of
        None \<Rightarrow> Inr JUndefined
      | Some s \<Rightarrow>
          if \<not> truthy (JStr s) then Inr (JStr s)
          else (case JSON_parse s of None \<Rightarrow> Inl (SyntaxError s) | Some v \<Rightarrow> Inr v))"

definition identity_middleware ::
  "(string \<Rightarrow> jsval option) \<Rightarrow> request \<Rightarrow> response \<Rightarrow> request \<times> response \<times> console_line list \<times> next_call" where
  "identity_middleware JSON_parse req res =
     (let user_cookie = cookies req ''user'';
          (req1, console) =
            (case and_parse JSON_parse user_cookie of
               Inr v \<Rightarrow>
                 (let req1 = req\<lparr>user := (if truthy v then v else JObj [])\<rparr>
                  in (req1, [Log ''user'' (user req1)]))
             | Inl thrown \<Rightarrow>
                 (req\<lparr>user := JObj []\<rparr>, [Warn ''error parsing user cookie'' thrown]))
      in (req1, res\<lparr>locals_user := user req1\<rparr>, console, Next))"

subsection \<open>The route table\<close>

datatype http_method = GET | HEAD | POST | PUT | DELETE | OtherMethod string

datatype route_handler =
    GetTasks | ShowAddTaskForm | AddTask | GetOneTask | DeleteOneTask | UpdateOneTask
  | EditOneTask | Books | ShowRegister | CreateUser | ShowLogin | DoLogin | DoLogout | CatchAll

text \<open>
  A route path is a list of segments, each a literal or a named parameter, or the
  wildcard \<open>*\<close>. A request path is the list of its segments between the slashes (a
  trailing slash adds none). Literals match without regard to letter case, a
  parameter matches any segment that is not empty, and the wildcard matches every
  path.
\<close>

datatype segment = Lit string | Param string

datatype route_path = Path "segment list" | Star

definition lower_char :: "char \<Rightarrow> char" where
  "lower_char ch =
     (case map_of (zip ''ABCDEFGHIJKLMNOPQRSTUVWXYZ'' ''abcdefghijklmnopqrstuvwxyz'') ch of
        Some l \<Rightarrow> l
      | None \<Rightarrow> ch)"

fun match_segments :: "segment list \<Rightarrow> string list \<Rightarrow> (string \<times> string) list option" where
  "match_segments [] [] = Some []"
| "match_segments (Lit l # ps) (s # ss) =
     (if map lower_char l = map lower_char s then match_segments ps ss else None)"
| "match_segments (Param k # ps) (s # ss) =
     (if s = [] then None
      else case match_segments ps ss of None \<Rightarrow> None | Some bound \<Rightarrow> Some ((k, s) # bound))"
| "match_segments ps ss = None"

fun match_path :: "route_path \<Rightarrow> string list \<Rightarrow> (string \<times> string) list option" where
  "match_path Star ss = Some []"
| "match_path (Path ps) ss = match_segments ps ss"

text \<open>The routes in the order server.js registers them; the last is \<^verbatim>\<open>app.get('*', ...)\<close>.\<close>

definition named_routes :: "(http_method \<times> route_path \<times> route_handler) list" where
  "named_routes =
     [(GET, Path [], GetTasks),
      (GET, Path [Lit ''add''], ShowAddTaskForm),
      (POST, Path [Lit ''add''], AddTask),
      (GET, Path [Lit ''tasks'', Param ''task_id''], GetOneTask),
      (DELETE, Path [Lit ''tasks'', Param ''task_id''], DeleteOneTask),
      (PUT, Path [Lit ''tasks'', Param ''task_id''], UpdateOneTask),
      (GET, Path [Lit ''tasks'', Param ''task_id'', Lit ''edit''], EditOneTask),
      (GET, Path [Lit ''books''], Books),
      (GET, Path [Lit ''register''], ShowRegister),
      (POST, Path [Lit ''register''], CreateUser),
      (GET, Path [Lit ''login''], ShowLogin),
      (POST, Path [Lit ''login''], DoLogin),
      (POST, Path [Lit ''logout''], DoLogout)]"

definition routes :: "(http_method \<times> route_path \<times> route_handler) list" where
  "routes = named_routes @ [(GET, Star, CatchAll)]"

text \<open>
  The first route of a table whose method and path match; a HEAD request is routed as
  GET. The method is the one the method override left, and the request is one that the
  middleware before the routes (among it the static files of \<open>./public\<close>) passed on.
\<close>

fun find_route ::
  "(http_method \<times> route_path \<times> route_handler) list \<Rightarrow> http_method \<Rightarrow> string list
     \<Rightarrow> (route_handler \<times> (string \<times> string) list) option" where
  "find_route [] m ss = None"
| "find_route ((rm, rp, h) # rs) m ss =
     (if rm = m then (case match_path rp ss of Some bound \<Rightarrow> Some (h, bound) | None \<Rightarrow> find_route rs m ss)
      else find_route rs m ss)"

definition route :: "http_method \<Rightarrow> string list \<Rightarrow> (route_handler \<times> (string \<times> string) list) option" where
  "route m ss = find_route routes (if m = HEAD then GET else m) ss"

text \<open>\<^verbatim>\<open>app.get('*', (req, res) => res.status(404).send('This route does not exist'));\<close>\<close>

definition catch_all :: "request \<Rightarrow> response \<Rightarrow> response" where
  "catch_all req res = send ''This route does not exist'' (status 404 res)"

subsection \<open>A conversion of decimal numerals, for the examples\<close>

definition digit_value :: "char \<Rightarrow> nat option" where
  "digit_value ch =
     map_of [(CHR ''0'', 0), (CHR ''1'', 1), (CHR ''2'', 2), (CHR ''3'', 3), (CHR ''4'', 4),
             (CHR ''5'', 5), (CHR ''6'', 6), (CHR ''7'', 7), (CHR ''8'', 8), (CHR ''9'', 9)] ch"

fun read_digits :: "nat \<Rightarrow> string \<Rightarrow> nat option" where
  "read_digits acc [] = Some acc"
| "read_digits acc (ch # rest) =
     (case digit_value ch of None \<Rightarrow> None | Some d \<Rightarrow> read_digits (10 * acc + d) rest)"

definition read_decimal :: "string \<Rightarrow> int option" where
  "read_decimal s =
     (case s of
        [] \<Rightarrow> None
      | ch # rest \<Rightarrow> (case read_digits 0 s of None \<Rightarrow> None | Some n \<Rightarrow> Some (int n)))"

subsection \<open>Example data\<close>

definition empty_response :: response where
  "empty_response = \<lparr>statusCode = 200, cookie_ops = [], locals_user = JUndefined, sent = NotSent\<rparr>"

definition buy_milk :: task_row where
  "buy_milk = \<lparr>t_id = 1, t_title = Some ''Buy milk'', t_description = None, t_category = None,
                t_contact = None, t_status = None, t_due = Some 9, t_user_id = Some 1\<rparr>"

definition pay_rent :: task_row where
  "pay_rent = \<lparr>t_id = 2, t_title = Some ''Pay rent'', t_description = None, t_category = None,
                t_contact = None, t_status = None, t_due = Some 3, t_user_id = Some 1\<rparr>"

definition walk_dog :: task_row where
  "walk_dog = \<lparr>t_id = 3, t_title = Some ''Walk dog'', t_description = None, t_category = None,
                t_contact = None, t_status = None, t_due = Some 5, t_user_id = Some 2\<rparr>"

definition example_client :: client where
  "example_client =
     \<lparr>int4in = read_decimal,
      users = [\<lparr>u_id = 1, u_username = ''keith''\<rparr>, \<lparr>u_id = 2, u_username = ''ada''\<rparr>],
      tasks = [buy_milk, pay_rent, walk_dog],
      users_id_seq = 2, tasks_id_seq = 3\<rparr>"

text \<open>A request of the identity \<open>u\<close> with the given path parameters and form fields.\<close>

definition example_request :: "jsval \<Rightarrow> (string \<times> string) list \<Rightarrow> (string \<times> string) list \<Rightarrow> request" where
  "example_request u ps form =
     \<lparr>cookies = Map.empty, query = Map.empty, body = map_of form, params = map_of ps, user = u\<rparr>"

text \<open>
  A serialisation for the examples (no character of a string is escaped), and a
  reading that knows the texts the examples use and takes every other text as
  malformed.
\<close>

definition quoted :: "string \<Rightarrow> string" where
  "quoted s = CHR 0x22 # s @ [CHR 0x22]"

fun join :: "string \<Rightarrow> string list \<Rightarrow> string" where
  "join sep [] = []"
| "join sep [x] = x"
| "join sep (x # y # ys) = x @ sep @ join sep (y # ys)"

fun to_json :: "jsval \<Rightarrow> string" where
  "to_json JUndefined = ''undefined''"
| "to_json JNull = ''null''"
| "to_json (JBool b) = (if b then ''true'' else ''false'')"
| "to_json (JNum n) = decimal n"
| "to_json (JStr s) = quoted s"
| "to_json (JArr vs) = ''['' @ join '','' (map to_json vs) @ '']''"
| "to_json (JObj fs) = ''{'' @ join '','' (map (\<lambda>(k, v). quoted k @ '':'' @ to_json v) fs) @ ''}''"

definition keith :: jsval where
  "keith = JObj [(''id'', JNum 1), (''username'', JStr ''keith'')]"

definition example_parse :: "string \<Rightarrow> jsval option" where
  "example_parse s =
     (if s = to_json keith then Some keith
      else if s = ''null'' then Some JNull
      else None)"

text \<open>A request that carries the given cookies and nothing else.\<close>

definition cookie_request :: "(string \<times> string) list \<Rightarrow> request" where
  "cookie_request cs =
     \<lparr>cookies = map_of cs, query = Map.empty, body = Map.empty, params = Map.empty, user = JUndefined\<rparr>"

section \<open>Properties\<close>

subsection \<open>Facts about the statements and the response\<close>

lemma select_tasks_set:
  "select_tasks c p1 p2 = Inr rows \<Longrightarrow>
     \<exists>u. as_int4 c p2 = Inr u \<and> set rows = {row \<in> set (tasks c). sql_eq (t_user_id row) u}"
  by (auto simp: select_tasks_def order_by_asc_def split: sum.splits)

lemma select_one_task_rows:
  "as_int4 c p1 = Inr n \<Longrightarrow> as_int4 c p2 = Inr u \<Longrightarrow>
     select_one_task c p1 p2 =
       Inr (take 1 (filter (\<lambda>row. sql_eq (Some (t_id row)) n \<and> sql_eq (t_user_id row) u) (tasks c)))"
  by (simp add: select_one_task_def)

lemma select_one_task_owned:
  "select_one_task c p1 p2 = Inr (row # rest) \<Longrightarrow>
     row \<in> set (tasks c) \<and> as_int4 c p1 = Inr (Some (t_id row)) \<and> as_int4 c p2 = Inr (t_user_id row)
       \<and> t_user_id row \<noteq> None"
proof -
  assume a: "select_one_task c p1 p2 = Inr (row # rest)"
  then obtain n u where n: "as_int4 c p1 = Inr n" and u: "as_int4 c p2 = Inr u"
    by (auto simp: select_one_task_def split: sum.splits)
  let ?P = "\<lambda>row. sql_eq (Some (t_id row)) n \<and> sql_eq (t_user_id row) u"
  from a n u have "row # rest = take 1 (filter ?P (tasks c))"
    by (simp add: select_one_task_def)
  then have "row \<in> set (take 1 (filter ?P (tasks c)))"
    by (metis list.set_intros(1))
  then have "row \<in> set (filter ?P (tasks c))"
    by (rule in_set_takeD)
  then show ?thesis using n u by (auto simp: sql_eq_def)
qed

lemma rendered_simps:
  "sent (render view vm res) = Rendered view vm"
  "sent (handleError e res) = Rendered ''pages/error-view'' (ErrorModel e)"
  "sent (error_handler e res) = Rendered ''pages/error-view'' (ErrorModel e)"
  by (simp_all add: render_def handleError_def error_handler_def status_def)

lemma select_tasks_rows:
  "CHR 0x00 \<notin> set p1 \<Longrightarrow> as_int4 c p2 = Inr u \<Longrightarrow>
     select_tasks c p1 p2 = Inr (filter (\<lambda>row. sql_eq (t_user_id row) u) (tasks c))"
  by (simp add: select_tasks_def as_text_def order_by_asc_def sort_key_const)

lemma as_text_accepted: "as_text p = Inr accepted \<Longrightarrow> accepted = p"
  by (auto simp: as_text_def split: option.splits if_splits)

lemma select_task_for_edit_rows:
  "as_int4 c p1 = Inr n \<Longrightarrow> as_int4 c p2 = Inr u \<Longrightarrow>
     select_task_for_edit c p1 p2 =
       Inr (filter (\<lambda>row. sql_eq (Some (t_id row)) n \<and> sql_eq (t_user_id row) u) (tasks c))"
  by (simp add: select_task_for_edit_def)

lemma no_match_filter:
  "\<not> (\<exists>row \<in> set rows. Some (t_id row) = N \<and> t_user_id row = V \<and> V \<noteq> None) \<Longrightarrow>
     filter (\<lambda>row. sql_eq (Some (t_id row)) N \<and> sql_eq (t_user_id row) V) rows = []"
  by (auto simp: filter_empty_conv sql_eq_def)

lemma handleError_response:
  "handleError e res = res\<lparr>statusCode := 500, sent := Rendered ''pages/error-view'' (ErrorModel e)\<rparr>"
  by (simp add: handleError_def render_def status_def)

lemma no_match_filter_not:
  "\<not> (\<exists>row \<in> set rows. Some (t_id row) = N \<and> t_user_id row = V \<and> V \<noteq> None) \<Longrightarrow>
     filter (\<lambda>row. \<not> (sql_eq (Some (t_id row)) N \<and> sql_eq (t_user_id row) V)) rows = rows"
  by (induction rows) (auto simp: sql_eq_def)

lemma insert_user_result:
  assumes "insert_user c p1 = (c1, Inr rows)"
  shows "\<exists>name stored. p1 = Some name \<and> varchar 100 name = Some stored
           \<and> users_id_seq c + 1 \<notin> set (map u_id (users c))
           \<and> stored \<notin> set (map u_username (users c))
           \<and> rows = [\<lparr>u_id = users_id_seq c + 1, u_username = stored\<rparr>]
           \<and> c1 = c\<lparr>users_id_seq := users_id_seq c + 1,
                      users := users c @ [\<lparr>u_id = users_id_seq c + 1, u_username = stored\<rparr>]\<rparr>"
  using assms
  by (auto simp: insert_user_def Let_def dest: as_text_accepted split: sum.splits option.splits if_splits)

lemma find_route_append:
  "find_route (rs @ rs') m ss =
     (case find_route rs m ss of Some found \<Rightarrow> Some found | None \<Rightarrow> find_route rs' m ss)"
  by (induction rs m ss rule: find_route.induct) (auto split: option.splits)

subsection \<open>Ownership isolation\<close>

text \<open>
  Claim C1. A task \<open>t\<close> owned by the identity \<open>U\<close> is never returned to a requester
  that is not \<open>U\<close>: whatever the listing renders does not contain \<open>t\<close>, and whatever
  the single-task retrieval renders is not \<open>t\<close>. Every row the listing renders is a
  row of the table whose owner is the requester's identifier. When the requester's
  identifier and the task identifier of the path are read by the database (as \<open>V\<close>
  and as the identifier of \<open>t\<close>, which names no other row), the retrieval reports
  \<open>Task Not Found\<close>.
\<close>

theorem ownership_isolation:
  assumes owner: "t_user_id t = Some U"
      and other: "\<forall>vid. js_get (user req) ''id'' = Inr vid \<longrightarrow> as_int4 c vid \<noteq> Inr (Some U)"
  shows "(getTasks c req res = Responded r \<and> sent r = Rendered view (TasksModel rows) \<longrightarrow> t \<notin> set rows)
       \<and> (getOneTask c req res = Responded r \<and> sent r = Rendered view (TaskModel shown) \<longrightarrow> shown \<noteq> Some t)
       \<and> (getTasks c req res = Responded r \<and> sent r = Rendered view (TasksModel rows) \<and> row \<in> set rows \<longrightarrow>
            row \<in> set (tasks c) \<and> t_user_id row \<noteq> None
            \<and> (\<exists>vid. js_get (user req) ''id'' = Inr vid \<and> as_int4 c vid = Inr (t_user_id row)))
       \<and> (js_get (user req) ''id'' = Inr requester \<and> as_int4 c requester = Inr V
            \<and> as_int4 c (js_of (params req ''task_id'')) = Inr (Some (t_id t))
            \<and> (\<forall>row \<in> set (tasks c). t_id row = t_id t \<longrightarrow> row = t) \<longrightarrow>
            getOneTask c req res = Responded (handleError (Message ''Task Not Found'') res))"
proof -
  have listed: "t_user_id row = u \<and> row \<in> set (tasks c) \<and> u \<noteq> None
                \<and> (\<exists>vid. js_get (user req) ''id'' = Inr vid \<and> as_int4 c vid = Inr u)"
    if "getTasks c req res = Responded r" "sent r = Rendered view (TasksModel rows)" "row \<in> set rows"
       "u = t_user_id row"
    for row u r view rows
  proof -
    from that obtain vid where vid: "js_get (user req) ''id'' = Inr vid"
      and sel: "select_tasks c (or_default (query req ''sort_by'') ''due'') vid = Inr rows"
      by (auto simp: getTasks_def rendered_simps split: sum.splits)
    from select_tasks_set [OF sel] obtain v where v: "as_int4 c vid = Inr v"
      and rows: "set rows = {row \<in> set (tasks c). sql_eq (t_user_id row) v}" by blast
    from rows that have "row \<in> set (tasks c)" "u \<noteq> None" "u = v"
      by (auto simp: sql_eq_def)
    with vid v that show ?thesis by auto
  qed
  have p1: "getTasks c req res = Responded r \<and> sent r = Rendered view (TasksModel rows) \<longrightarrow> t \<notin> set rows"
  proof (intro impI notI)
    assume a: "getTasks c req res = Responded r \<and> sent r = Rendered view (TasksModel rows)" and "t \<in> set rows"
    with listed [of r view rows t "Some U"] owner
    have "\<exists>vid. js_get (user req) ''id'' = Inr vid \<and> as_int4 c vid = Inr (Some U)" by simp
    with other show False by auto
  qed
  have p2: "getOneTask c req res = Responded r \<and> sent r = Rendered view (TaskModel shown) \<longrightarrow> shown \<noteq> Some t"
  proof (intro impI notI)
    assume a: "getOneTask c req res = Responded r \<and> sent r = Rendered view (TaskModel shown)"
      and s: "shown = Some t"
    from a s obtain vid rest where vid: "js_get (user req) ''id'' = Inr vid"
      and sel: "select_one_task c (js_of (params req ''task_id'')) vid = Inr (t # rest)"
      by (auto simp: getOneTask_def rendered_simps split: sum.splits list.splits)
    from select_one_task_owned [OF sel] owner have "as_int4 c vid = Inr (Some U)" by simp
    with other vid show False by auto
  qed
  have p3: "getTasks c req res = Responded r \<and> sent r = Rendered view (TasksModel rows) \<and> row \<in> set rows \<longrightarrow>
            row \<in> set (tasks c) \<and> t_user_id row \<noteq> None
            \<and> (\<exists>vid. js_get (user req) ''id'' = Inr vid \<and> as_int4 c vid = Inr (t_user_id row))"
    using listed [of r view rows row "t_user_id row"] by simp
  have p4: "js_get (user req) ''id'' = Inr requester \<and> as_int4 c requester = Inr V
            \<and> as_int4 c (js_of (params req ''task_id'')) = Inr (Some (t_id t))
            \<and> (\<forall>row \<in> set (tasks c). t_id row = t_id t \<longrightarrow> row = t) \<longrightarrow>
            getOneTask c req res = Responded (handleError (Message ''Task Not Found'') res)"
  proof
    assume a: "js_get (user req) ''id'' = Inr requester \<and> as_int4 c requester = Inr V
            \<and> as_int4 c (js_of (params req ''task_id'')) = Inr (Some (t_id t))
            \<and> (\<forall>row \<in> set (tasks c). t_id row = t_id t \<longrightarrow> row = t)"
    then have V: "V \<noteq> Some U" using other by auto
    have "filter (\<lambda>row. sql_eq (Some (t_id row)) (Some (t_id t)) \<and> sql_eq (t_user_id row) V) (tasks c) = []"
      using a V owner by (auto simp: filter_empty_conv sql_eq_def)
    with a show "getOneTask c req res = Responded (handleError (Message ''Task Not Found'') res)"
      by (simp add: getOneTask_def select_one_task_rows)
  qed
  from p1 p2 p3 p4 show ?thesis by blast
qed

theorem ownership_isolation_witness:
  "t_user_id buy_milk = Some 1
   \<and> getTasks example_client (example_request (JObj [(''id'', JNum 2), (''username'', JStr ''ada'')]) [] []) empty_response
       = Responded (render ''index'' (TasksModel [walk_dog]) empty_response)
   \<and> buy_milk \<notin> set [walk_dog]
   \<and> getOneTask example_client (example_request (JObj [(''id'', JNum 2), (''username'', JStr ''ada'')]) [(''task_id'', ''1'')] []) empty_response
       = Responded (handleError (Message ''Task Not Found'') empty_response)"
  using ownership_isolation [where t = buy_milk and U = 1 and c = example_client
      and req = "example_request (JObj [(''id'', JNum 2), (''username'', JStr ''ada'')]) [(''task_id'', ''1'')] []"
      and res = empty_response and requester = "JNum 2" and V = "Some 2"
      and r = "render ''index'' (TasksModel [walk_dog]) empty_response" and view = "''index''"
      and rows = "[walk_dog]" and row = walk_dog and shown = None]
  by (simp add: getTasks_def select_tasks_def as_text_def fits_int4_def order_by_asc_def
      example_client_def example_request_def js_of_def read_decimal_def digit_value_def
      buy_milk_def pay_rent_def walk_dog_def sql_eq_def or_default_def)

subsection \<open>Task listing\<close>

text \<open>
  Claim C2. The listing is meant to come back in ascending order of the requested
  column, the due date when none is requested. The statement sorts by its parameter,
  not by a column, so the rows come back in table order: with no \<open>sort_by\<close> and with
  \<open>sort_by=due\<close> alike, identity 1 lists \<open>buy_milk\<close> (due on day 9) before
  \<open>pay_rent\<close> (due on day 3).
\<close>

theorem getTasks_order_is_table_order:
  "getTasks example_client (example_request (JObj [(''id'', JNum 1)]) [] []) empty_response
     = Responded (render ''index'' (TasksModel [buy_milk, pay_rent]) empty_response)
   \<and> getTasks example_client
         ((example_request (JObj [(''id'', JNum 1)]) [] [])\<lparr>query := [''sort_by'' \<mapsto> ''due'']\<rparr>)
         empty_response
     = Responded (render ''index'' (TasksModel [buy_milk, pay_rent]) empty_response)
   \<and> t_due buy_milk = Some 9 \<and> t_due pay_rent = Some 3
   \<and> \<not> sorted (map (\<lambda>row. the (t_due row)) [buy_milk, pay_rent])"
  by (simp add: getTasks_def select_tasks_def as_text_def fits_int4_def order_by_asc_def sort_key_const
      example_client_def example_request_def buy_milk_def pay_rent_def walk_dog_def sql_eq_def
      or_default_def)

subsection \<open>Single task retrieval\<close>

text \<open>
  Claim C3. When the database reads the requester's identifier as \<open>u\<close> and the path's
  task identifier as \<open>n\<close>, and a row with identifier \<open>n\<close> belongs to \<open>u\<close>, such a
  row is rendered in the detail view. When no row has that identifier and that owner
  (also for a requester without identifier), \<open>Task Not Found\<close> is reported through
  \<open>handleError\<close>. A rejected statement is reported through \<open>handleError\<close> too, and
  \<open>handleError\<close> always renders the error view with status 500. Whatever the request,
  the handler either renders a row in the detail view or reports through
  \<open>handleError\<close>.
\<close>

theorem getOneTask_found_or_not_found:
  "(js_get (user req) ''id'' = Inr vid \<and> as_int4 c vid = Inr (Some u)
      \<and> as_int4 c (js_of (params req ''task_id'')) = Inr (Some n)
      \<and> row \<in> set (tasks c) \<and> t_id row = n \<and> t_user_id row = Some u \<longrightarrow>
      (\<exists>shown \<in> set (tasks c). t_id shown = n \<and> t_user_id shown = Some u
         \<and> getOneTask c req res
             = Responded (res\<lparr>sent := Rendered ''pages/detail-view'' (TaskModel (Some shown))\<rparr>)))
   \<and> (js_get (user req) ''id'' = Inr vid \<and> as_int4 c vid = Inr V
      \<and> as_int4 c (js_of (params req ''task_id'')) = Inr N
      \<and> \<not> (\<exists>row \<in> set (tasks c). Some (t_id row) = N \<and> t_user_id row = V \<and> V \<noteq> None) \<longrightarrow>
      getOneTask c req res = Responded (handleError (Message ''Task Not Found'') res))
   \<and> (js_get (user req) ''id'' = Inr vid
      \<and> select_one_task c (js_of (params req ''task_id'')) vid = Inl failure \<longrightarrow>
      getOneTask c req res = Responded (handleError (DatabaseError failure) res))
   \<and> handleError e res = res\<lparr>statusCode := 500, sent := Rendered ''pages/error-view'' (ErrorModel e)\<rparr>
   \<and> ((\<exists>shown. getOneTask c req res
           = Responded (res\<lparr>sent := Rendered ''pages/detail-view'' (TaskModel (Some shown))\<rparr>))
      \<or> (\<exists>reported. getOneTask c req res = Responded (handleError reported res)))"
proof -
  have always: "(\<exists>shown. getOneTask c req res
           = Responded (res\<lparr>sent := Rendered ''pages/detail-view'' (TaskModel (Some shown))\<rparr>))
      \<or> (\<exists>reported. getOneTask c req res = Responded (handleError reported res))"
    by (auto simp: getOneTask_def error_handler_def render_def split: sum.splits list.splits)
  have found: "\<exists>shown \<in> set (tasks c). t_id shown = n \<and> t_user_id shown = Some u
         \<and> getOneTask c req res
             = Responded (res\<lparr>sent := Rendered ''pages/detail-view'' (TaskModel (Some shown))\<rparr>)"
    if a: "js_get (user req) ''id'' = Inr vid" "as_int4 c vid = Inr (Some u)"
      "as_int4 c (js_of (params req ''task_id'')) = Inr (Some n)"
      and row: "row \<in> set (tasks c)" "t_id row = n" "t_user_id row = Some u"
  proof -
    let ?P = "\<lambda>row. sql_eq (Some (t_id row)) (Some n) \<and> sql_eq (t_user_id row) (Some u)"
    from row have "row \<in> set (filter ?P (tasks c))" by (simp add: sql_eq_def)
    then obtain shown rest where f: "filter ?P (tasks c) = shown # rest"
      by (cases "filter ?P (tasks c)") auto
    then have "shown \<in> set (filter ?P (tasks c))" by simp
    then have "shown \<in> set (tasks c)" "t_id shown = n" "t_user_id shown = Some u"
      by (auto simp: sql_eq_def)
    moreover from a f have "getOneTask c req res
             = Responded (res\<lparr>sent := Rendered ''pages/detail-view'' (TaskModel (Some shown))\<rparr>)"
      by (simp add: getOneTask_def select_one_task_rows render_def)
    ultimately show ?thesis by blast
  qed
  have missing: "getOneTask c req res = Responded (handleError (Message ''Task Not Found'') res)"
    if "js_get (user req) ''id'' = Inr vid" "as_int4 c vid = Inr V"
      "as_int4 c (js_of (params req ''task_id'')) = Inr N"
      "\<not> (\<exists>row \<in> set (tasks c). Some (t_id row) = N \<and> t_user_id row = V \<and> V \<noteq> None)"
    using that by (simp add: getOneTask_def select_one_task_rows no_match_filter)
  have rejected: "getOneTask c req res = Responded (handleError (DatabaseError failure) res)"
    if "js_get (user req) ''id'' = Inr vid"
      "select_one_task c (js_of (params req ''task_id'')) vid = Inl failure"
    using that by (simp add: getOneTask_def)
  from found missing rejected handleError_response always show ?thesis by blast
qed

theorem getOneTask_found_or_not_found_witness:
  "getOneTask example_client (example_request (JObj [(''id'', JNum 1)]) [(''task_id'', ''1'')] []) empty_response
     = Responded (empty_response\<lparr>sent := Rendered ''pages/detail-view'' (TaskModel (Some buy_milk))\<rparr>)
   \<and> getOneTask example_client (example_request (JObj [(''id'', JNum 2)]) [(''task_id'', ''1'')] []) empty_response
     = Responded (empty_response\<lparr>statusCode := 500,
          sent := Rendered ''pages/error-view'' (ErrorModel (Message ''Task Not Found''))\<rparr>)
   \<and> getOneTask example_client (example_request (JObj [(''id'', JNum 1)]) [(''task_id'', ''x'')] []) empty_response
     = Responded (empty_response\<lparr>statusCode := 500,
          sent := Rendered ''pages/error-view''
                    (ErrorModel (DatabaseError (InvalidTextRepresentation (JStr ''x''))))\<rparr>)"
proof -
  let ?c = example_client
  let ?own = "example_request (JObj [(''id'', JNum 1)]) [(''task_id'', ''1'')] []"
  let ?other = "example_request (JObj [(''id'', JNum 2)]) [(''task_id'', ''1'')] []"
  let ?bad = "example_request (JObj [(''id'', JNum 1)]) [(''task_id'', ''x'')] []"
  note defs = example_client_def example_request_def js_of_def read_decimal_def digit_value_def
    fits_int4_def as_text_def buy_milk_def pay_rent_def walk_dog_def
  have "\<exists>shown \<in> set (tasks ?c). t_id shown = 1 \<and> t_user_id shown = Some 1
         \<and> getOneTask ?c ?own empty_response
             = Responded (empty_response\<lparr>sent := Rendered ''pages/detail-view'' (TaskModel (Some shown))\<rparr>)"
    using getOneTask_found_or_not_found [where c = ?c and req = ?own and res = empty_response
        and vid = "JNum 1" and u = 1 and n = 1 and row = buy_milk]
    by (simp add: defs)
  then have one: "getOneTask ?c ?own empty_response
       = Responded (empty_response\<lparr>sent := Rendered ''pages/detail-view'' (TaskModel (Some buy_milk))\<rparr>)"
    by (auto simp: defs)
  have two: "getOneTask ?c ?other empty_response
       = Responded (handleError (Message ''Task Not Found'') empty_response)"
    using getOneTask_found_or_not_found [where c = ?c and req = ?other and res = empty_response
        and vid = "JNum 2" and V = "Some 2" and N = "Some 1"]
    by (simp add: defs)
  have three: "getOneTask ?c ?bad empty_response
       = Responded (handleError (DatabaseError (InvalidTextRepresentation (JStr ''x''))) empty_response)"
    using getOneTask_found_or_not_found [where c = ?c and req = ?bad and res = empty_response
        and vid = "JNum 1" and failure = "InvalidTextRepresentation (JStr ''x'')"]
    by (simp add: defs select_one_task_def)
  from one two three show ?thesis
    using getOneTask_found_or_not_found [where res = empty_response] by simp
qed

subsection \<open>Update and deletion without a matching row\<close>

text \<open>
  Claim C4, as stated, says that an update or deletion that matches no row of the
  requester always succeeds silently. The statement can be refused before any row is
  looked at: identity 2 updating task 1 of identity 1 with a title that holds U+0000,
  and identity 2 deleting the task \<open>abc\<close>, are both answered with the error view and
  status 500, not with a redirect.
\<close>

theorem update_delete_refused_parameter:
  "updateOneTask example_client
       (example_request (JObj [(''id'', JNum 2)]) [(''task_id'', ''1'')] [(''title'', [CHR 0x00])])
       empty_response
     = (example_client,
        Responded \<lparr>statusCode = 500, cookie_ops = [], locals_user = JUndefined,
           sent = Rendered ''pages/error-view''
                    (ErrorModel (DatabaseError (CharacterNotInRepertoire [CHR 0x00])))\<rparr>)
   \<and> deleteOneTask example_client
       (example_request (JObj [(''id'', JNum 2)]) [(''task_id'', ''abc'')] [])
       empty_response
     = (example_client,
        Responded \<lparr>statusCode = 500, cookie_ops = [], locals_user = JUndefined,
           sent = Rendered ''pages/error-view''
                    (ErrorModel (DatabaseError (InvalidTextRepresentation (JStr ''abc''))))\<rparr>)
   \<and> t_id buy_milk = 1 \<and> t_user_id buy_milk = Some 1"
  by (simp add: updateOneTask_def update_task_def deleteOneTask_def delete_task_def as_text_def
      error_handler_def handleError_def render_def status_def example_client_def example_request_def
      js_of_def read_decimal_def digit_value_def fits_int4_def empty_response_def buy_milk_def)

text \<open>
  Claim C4, amended. When the database accepts the parameters (it reads the
  requester's identifier as \<open>V\<close> and the path's task identifier as \<open>N\<close>, and for an
  update no form field holds U+0000) and no row has identifier \<open>N\<close> and owner \<open>V\<close>
  (the row is missing, belongs to another identity, or the requester has no
  identifier), update and deletion succeed without an error: the update redirects to
  the task's detail page, the deletion redirects to the listing, and the database is
  left exactly as it was, so a row under another owner stays present and unchanged.
  When the database refuses the statement, the database is left as it was too and the
  handler answers with the error view and status 500.
\<close>

theorem update_delete_unmatched_noop:
  "(js_get (user req) ''id'' = Inr vid \<and> as_int4 c vid = Inr V
      \<and> as_int4 c (js_of (params req ''task_id'')) = Inr N
      \<and> \<not> (\<exists>row \<in> set (tasks c). Some (t_id row) = N \<and> t_user_id row = V \<and> V \<noteq> None)
      \<and> bind_texts [body req ''title'', body req ''description'', body req ''category'',
                     body req ''contact'', body req ''status''] = Inr () \<longrightarrow>
      updateOneTask c req res
        = (c, Responded (res\<lparr>statusCode := 302,
                              sent := Redirected (''/tasks/'' @ template (params req ''task_id''))\<rparr>)))
   \<and> (js_get (user req) ''id'' = Inr vid \<and> as_int4 c vid = Inr V
      \<and> as_int4 c (js_of (params req ''task_id'')) = Inr N
      \<and> \<not> (\<exists>row \<in> set (tasks c). Some (t_id row) = N \<and> t_user_id row = V \<and> V \<noteq> None) \<longrightarrow>
      deleteOneTask c req res = (c, Responded (res\<lparr>statusCode := 302, sent := Redirected ''/''\<rparr>)))
   \<and> (js_get (user req) ''id'' = Inr vid
      \<and> update_task c (body req ''title'') (body req ''description'') (body req ''category'')
           (body req ''contact'') (body req ''status'') (js_of (params req ''task_id'')) vid
          = (c1, Inl refused) \<longrightarrow>
      c1 = c
      \<and> updateOneTask c req res
          = (c, Responded (res\<lparr>statusCode := 500,
                sent := Rendered ''pages/error-view'' (ErrorModel (DatabaseError refused))\<rparr>)))
   \<and> (js_get (user req) ''id'' = Inr vid
      \<and> delete_task c (js_of (params req ''task_id'')) vid = (c1, Inl refused) \<longrightarrow>
      c1 = c
      \<and> deleteOneTask c req res
          = (c, Responded (res\<lparr>statusCode := 500,
                sent := Rendered ''pages/error-view'' (ErrorModel (DatabaseError refused))\<rparr>)))"
proof -
  have upd: "updateOneTask c req res
        = (c, Responded (res\<lparr>statusCode := 302,
                              sent := Redirected (''/tasks/'' @ template (params req ''task_id''))\<rparr>))"
    if "js_get (user req) ''id'' = Inr vid" "as_int4 c vid = Inr V"
      "as_int4 c (js_of (params req ''task_id'')) = Inr N"
      and unmatched: "\<not> (\<exists>row \<in> set (tasks c). Some (t_id row) = N \<and> t_user_id row = V \<and> V \<noteq> None)"
      and texts: "bind_texts [body req ''title'', body req ''description'', body req ''category'',
                     body req ''contact'', body req ''status''] = Inr ()"
    using that(1-3) texts no_match_filter [OF unmatched] no_match_filter_not [OF unmatched]
    by (simp add: updateOneTask_def update_task_def redirect_def)
  have del: "deleteOneTask c req res = (c, Responded (res\<lparr>statusCode := 302, sent := Redirected ''/''\<rparr>))"
    if "js_get (user req) ''id'' = Inr vid" "as_int4 c vid = Inr V"
      "as_int4 c (js_of (params req ''task_id'')) = Inr N"
      and unmatched: "\<not> (\<exists>row \<in> set (tasks c). Some (t_id row) = N \<and> t_user_id row = V \<and> V \<noteq> None)"
    using that(1-3) no_match_filter_not [OF unmatched]
    by (simp add: deleteOneTask_def delete_task_def redirect_def)
  have upd_refused: "c1 = c
      \<and> updateOneTask c req res
          = (c, Responded (res\<lparr>statusCode := 500,
                sent := Rendered ''pages/error-view'' (ErrorModel (DatabaseError refused))\<rparr>))"
    if "js_get (user req) ''id'' = Inr vid"
      and r: "update_task c (body req ''title'') (body req ''description'') (body req ''category'')
           (body req ''contact'') (body req ''status'') (js_of (params req ''task_id'')) vid
          = (c1, Inl refused)"
  proof -
    from r have "c1 = c" by (auto simp: update_task_def split: sum.splits)
    with that show ?thesis
      by (simp add: updateOneTask_def error_handler_def handleError_response)
  qed
  have del_refused: "c1 = c
      \<and> deleteOneTask c req res
          = (c, Responded (res\<lparr>statusCode := 500,
                sent := Rendered ''pages/error-view'' (ErrorModel (DatabaseError refused))\<rparr>))"
    if "js_get (user req) ''id'' = Inr vid"
      and r: "delete_task c (js_of (params req ''task_id'')) vid = (c1, Inl refused)"
  proof -
    from r have "c1 = c" by (auto simp: delete_task_def split: sum.splits)
    with that show ?thesis
      by (simp add: deleteOneTask_def handleError_response)
  qed
  from upd del upd_refused del_refused show ?thesis by blast
qed

theorem update_delete_unmatched_noop_witness:
  "updateOneTask example_client
       (example_request (JObj [(''id'', JNum 2)]) [(''task_id'', ''1'')] [(''title'', ''Mine now'')])
       empty_response
     = (example_client,
        Responded (empty_response\<lparr>statusCode := 302, sent := Redirected ''/tasks/1''\<rparr>))
   \<and> deleteOneTask example_client
       (example_request (JObj [(''id'', JNum 2)]) [(''task_id'', ''1'')] [])
       empty_response
     = (example_client, Responded (empty_response\<lparr>statusCode := 302, sent := Redirected ''/''\<rparr>))
   \<and> buy_milk \<in> set (tasks example_client)
   \<and> updateOneTask example_client
       (example_request (JObj [(''id'', JNum 1)]) [(''task_id'', ''77'')] [(''title'', ''Nothing'')])
       empty_response
     = (example_client,
        Responded (empty_response\<lparr>statusCode := 302, sent := Redirected ''/tasks/77''\<rparr>))
   \<and> updateOneTask example_client
       (example_request (JObj [(''id'', JNum 2)]) [(''task_id'', ''1'')] [(''title'', [CHR 0x00])])
       empty_response
     = (example_client,
        Responded (empty_response\<lparr>statusCode := 500,
           sent := Rendered ''pages/error-view''
                     (ErrorModel (DatabaseError (CharacterNotInRepertoire [CHR 0x00])))\<rparr>))
   \<and> deleteOneTask example_client
       (example_request (JObj [(''id'', JStr ''x'')]) [(''task_id'', ''1'')] [])
       empty_response
     = (example_client,
        Responded (empty_response\<lparr>statusCode := 500,
           sent := Rendered ''pages/error-view''
                     (ErrorModel (DatabaseError (InvalidTextRepresentation (JStr ''x''))))\<rparr>))"
proof -
  note defs = example_client_def example_request_def js_of_def read_decimal_def digit_value_def
    fits_int4_def as_text_def buy_milk_def pay_rent_def walk_dog_def template_def
  have one: "updateOneTask example_client
       (example_request (JObj [(''id'', JNum 2)]) [(''task_id'', ''1'')] [(''title'', ''Mine now'')])
       empty_response
     = (example_client,
        Responded (empty_response\<lparr>statusCode := 302, sent := Redirected ''/tasks/1''\<rparr>))"
    using update_delete_unmatched_noop [where c = example_client
        and req = "example_request (JObj [(''id'', JNum 2)]) [(''task_id'', ''1'')] [(''title'', ''Mine now'')]"
        and res = empty_response and vid = "JNum 2" and V = "Some 2" and N = "Some 1"]
    by (simp add: defs)
  have two: "deleteOneTask example_client
       (example_request (JObj [(''id'', JNum 2)]) [(''task_id'', ''1'')] [])
       empty_response
     = (example_client, Responded (empty_response\<lparr>statusCode := 302, sent := Redirected ''/''\<rparr>))"
    using update_delete_unmatched_noop [where c = example_client
        and req = "example_request (JObj [(''id'', JNum 2)]) [(''task_id'', ''1'')] []"
        and res = empty_response and vid = "JNum 2" and V = "Some 2" and N = "Some 1"]
    by (simp add: defs)
  have three: "updateOneTask example_client
       (example_request (JObj [(''id'', JNum 1)]) [(''task_id'', ''77'')] [(''title'', ''Nothing'')])
       empty_response
     = (example_client,
        Responded (empty_response\<lparr>statusCode := 302, sent := Redirected ''/tasks/77''\<rparr>))"
    using update_delete_unmatched_noop [where c = example_client
        and req = "example_request (JObj [(''id'', JNum 1)]) [(''task_id'', ''77'')] [(''title'', ''Nothing'')]"
        and res = empty_response and vid = "JNum 1" and V = "Some 1" and N = "Some 77"]
    by (simp add: defs)
  have four: "updateOneTask example_client
       (example_request (JObj [(''id'', JNum 2)]) [(''task_id'', ''1'')] [(''title'', [CHR 0x00])])
       empty_response
     = (example_client,
        Responded (empty_response\<lparr>statusCode := 500,
           sent := Rendered ''pages/error-view''
                     (ErrorModel (DatabaseError (CharacterNotInRepertoire [CHR 0x00])))\<rparr>))"
    using update_delete_unmatched_noop [where c = example_client
        and req = "example_request (JObj [(''id'', JNum 2)]) [(''task_id'', ''1'')] [(''title'', [CHR 0x00])]"
        and res = empty_response and vid = "JNum 2" and ?c1.0 = example_client
        and refused = "CharacterNotInRepertoire [CHR 0x00]"]
    by (simp add: defs update_task_def)
  have five: "deleteOneTask example_client
       (example_request (JObj [(''id'', JStr ''x'')]) [(''task_id'', ''1'')] [])
       empty_response
     = (example_client,
        Responded (empty_response\<lparr>statusCode := 500,
           sent := Rendered ''pages/error-view''
                     (ErrorModel (DatabaseError (InvalidTextRepresentation (JStr ''x''))))\<rparr>))"
    using update_delete_unmatched_noop [where c = example_client
        and req = "example_request (JObj [(''id'', JStr ''x'')]) [(''task_id'', ''1'')] []"
        and res = empty_response and vid = "JStr ''x''" and ?c1.0 = example_client
        and refused = "InvalidTextRepresentation (JStr ''x'')"]
    by (simp add: defs delete_task_def)
  from one two three four five show ?thesis by (simp add: example_client_def)
qed

subsection \<open>The edit form without a matching row\<close>

text \<open>
  Claim C10, as stated, says that the edit handler renders the edit view with an
  undefined task whenever the path's task identifier matches no row of the requester.
  Task 1 belongs to identity 1; for a requester whose cookie holds the identifier
  \<open>x\<close> the statement is refused and the handler renders nothing.
\<close>

theorem editOneTask_unreadable_requester_renders_nothing:
  "editOneTask example_client
       (example_request (JObj [(''id'', JStr ''x'')]) [(''task_id'', ''1'')] []) empty_response
     = UnhandledRejection (DatabaseError (InvalidTextRepresentation (JStr ''x'')))
   \<and> t_id buy_milk = 1 \<and> t_user_id buy_milk = Some 1"
  by (simp add: editOneTask_def select_task_for_edit_def example_client_def example_request_def
      js_of_def read_decimal_def digit_value_def fits_int4_def buy_milk_def)

text \<open>
  Claim C10, amended. When the database reads the requester's identifier as \<open>V\<close> and
  the path's task identifier as \<open>N\<close>, and no row has identifier \<open>N\<close> and owner \<open>V\<close>,
  the edit handler renders the edit view with an undefined task: the status of the
  response is not changed and no error is reported.
\<close>

theorem editOneTask_unmatched_renders_undefined:
  assumes requester: "js_get (user req) ''id'' = Inr vid" "as_int4 c vid = Inr V"
      and task_id: "as_int4 c (js_of (params req ''task_id'')) = Inr N"
      and unmatched: "\<not> (\<exists>row \<in> set (tasks c). Some (t_id row) = N \<and> t_user_id row = V \<and> V \<noteq> None)"
  shows "editOneTask c req res = Responded (res\<lparr>sent := Rendered ''pages/edit-view'' (TaskModel None)\<rparr>)"
  using requester task_id no_match_filter [OF unmatched]
  by (simp add: editOneTask_def select_task_for_edit_rows first_def render_def)

theorem editOneTask_unmatched_renders_undefined_witness:
  "editOneTask example_client (example_request (JObj [(''id'', JNum 2)]) [(''task_id'', ''1'')] []) empty_response
     = Responded \<lparr>statusCode = 200, cookie_ops = [], locals_user = JUndefined,
                  sent = Rendered ''pages/edit-view'' (TaskModel None)\<rparr>
   \<and> editOneTask example_client (example_request (JObj []) [(''task_id'', ''1'')] []) empty_response
     = Responded \<lparr>statusCode = 200, cookie_ops = [], locals_user = JUndefined,
                  sent = Rendered ''pages/edit-view'' (TaskModel None)\<rparr>"
proof -
  note defs = example_client_def example_request_def js_of_def read_decimal_def digit_value_def
    fits_int4_def as_text_def buy_milk_def pay_rent_def walk_dog_def empty_response_def
  have one: "editOneTask example_client (example_request (JObj [(''id'', JNum 2)]) [(''task_id'', ''1'')] []) empty_response
     = Responded (empty_response\<lparr>sent := Rendered ''pages/edit-view'' (TaskModel None)\<rparr>)"
    using editOneTask_unmatched_renders_undefined [where c = example_client
        and req = "example_request (JObj [(''id'', JNum 2)]) [(''task_id'', ''1'')] []"
        and res = empty_response and vid = "JNum 2" and V = "Some 2" and N = "Some 1"]
    by (simp add: defs)
  have two: "editOneTask example_client (example_request (JObj []) [(''task_id'', ''1'')] []) empty_response
     = Responded (empty_response\<lparr>sent := Rendered ''pages/edit-view'' (TaskModel None)\<rparr>)"
    using editOneTask_unmatched_renders_undefined [where c = example_client
        and req = "example_request (JObj []) [(''task_id'', ''1'')] []"
        and res = empty_response and vid = "JUndefined" and V = "None" and N = "Some 1"]
    by (simp add: defs)
  from one two show ?thesis by (simp add: empty_response_def)
qed

subsection \<open>Rejected statements\<close>

text \<open>
  Every handler but \<open>editOneTask\<close> answers a rejected statement with the error view
  and status 500.
\<close>

lemma rejections_answered:
  "select_tasks c (or_default (query req ''sort_by'') ''due'') vid = Inl e \<Longrightarrow>
     js_get (user req) ''id'' = Inr vid \<Longrightarrow>
     getTasks c req res = Responded (handleError (DatabaseError e) res)"
  "select_one_task c (js_of (params req ''task_id'')) vid = Inl e \<Longrightarrow>
     js_get (user req) ''id'' = Inr vid \<Longrightarrow>
     getOneTask c req res = Responded (handleError (DatabaseError e) res)"
  "insert_task c (body req ''title'') (body req ''description'') (body req ''category'')
       (body req ''contact'') (body req ''status'') vid = (c1, Inl e) \<Longrightarrow>
     js_get (user req) ''id'' = Inr vid \<Longrightarrow>
     addTask c req res = (c1, Responded (handleError (DatabaseError e) res))"
  "delete_task c (js_of (params req ''task_id'')) vid = (c1, Inl e) \<Longrightarrow>
     js_get (user req) ''id'' = Inr vid \<Longrightarrow>
     deleteOneTask c req res = (c1, Responded (handleError (DatabaseError e) res))"
  "update_task c (body req ''title'') (body req ''description'') (body req ''category'')
       (body req ''contact'') (body req ''status'') (js_of (params req ''task_id'')) vid = (c1, Inl e) \<Longrightarrow>
     js_get (user req) ''id'' = Inr vid \<Longrightarrow>
     updateOneTask c req res = (c1, Responded (handleError (DatabaseError e) res))"
  "insert_user c (body req ''username'') = (c1, Inl e) \<Longrightarrow>
     createUser JSON_stringify c req res = (c1, Responded (handleError (DatabaseError e) res))"
  "select_user c (body req ''username'') = Inl e \<Longrightarrow>
     doLogin JSON_stringify c req res = Responded (handleError (DatabaseError e) res)"
  by (simp_all add: getTasks_def getOneTask_def addTask_def deleteOneTask_def updateOneTask_def
      createUser_def doLogin_def error_handler_def)

lemma editOneTask_rejected:
  "select_task_for_edit c (js_of (params req ''task_id'')) vid = Inl e \<Longrightarrow>
     js_get (user req) ''id'' = Inr vid \<Longrightarrow>
     editOneTask c req res = UnhandledRejection (DatabaseError e)"
  by (simp add: editOneTask_def)

text \<open>
  Claim C8. Every route handler is meant to recover a data-access error and answer
  with the error view and status 500. \<open>editOneTask\<close> does not: for the path
  \<open>/tasks/abc/edit\<close> the statement is rejected (\<open>abc\<close> is not an integer) and the
  rejection stays unhandled, so no response is written; \<open>getOneTask\<close> answers the
  same rejection through \<open>handleError\<close>.
\<close>

theorem editOneTask_rejection_unhandled:
  "editOneTask example_client (example_request (JObj [(''id'', JNum 1)]) [(''task_id'', ''abc'')] []) empty_response
     = UnhandledRejection (DatabaseError (InvalidTextRepresentation (JStr ''abc'')))
   \<and> getOneTask example_client (example_request (JObj [(''id'', JNum 1)]) [(''task_id'', ''abc'')] []) empty_response
     = Responded (handleError (DatabaseError (InvalidTextRepresentation (JStr ''abc''))) empty_response)"
  by (simp add: editOneTask_def getOneTask_def select_task_for_edit_def select_one_task_def
      example_client_def example_request_def js_of_def read_decimal_def digit_value_def fits_int4_def)

subsection \<open>Registration\<close>

text \<open>
  Claim C5. When the INSERT of a registration succeeds, exactly one new row is added
  to \<open>users\<close>, holding the submitted username as the column stores it; the \<open>user\<close>
  cookie is set to the serialisation of that row's \<open>id\<close> and \<open>username\<close>, so the
  identifier in the cookie is the identifier of the inserted row; and the response
  redirects to the listing page \<open>/\<close>.
\<close>

theorem createUser_cookie_is_inserted_row:
  assumes success: "insert_user c (body req ''username'') = (c1, Inr rows)"
  shows "\<exists>row name. body req ''username'' = Some name \<and> varchar 100 name = Some (u_username row)
           \<and> row \<notin> set (users c) \<and> users c1 = users c @ [row] \<and> tasks c1 = tasks c
           \<and> createUser JSON_stringify c req res
               = (c1, Responded (res\<lparr>statusCode := 302,
                    cookie_ops := cookie_ops res @
                      [SetCookie ''user''
                         (JSON_stringify (JObj [(''id'', JNum (u_id row)), (''username'', JStr (u_username row))]))],
                    sent := Redirected ''/''\<rparr>))"
proof -
  from insert_user_result [OF success] obtain name stored where
    name: "body req ''username'' = Some name" "varchar 100 name = Some stored"
    and fresh: "users_id_seq c + 1 \<notin> set (map u_id (users c))"
    and rows: "rows = [\<lparr>u_id = users_id_seq c + 1, u_username = stored\<rparr>]"
    and c1: "c1 = c\<lparr>users_id_seq := users_id_seq c + 1,
                      users := users c @ [\<lparr>u_id = users_id_seq c + 1, u_username = stored\<rparr>]\<rparr>"
    by blast
  let ?row = "\<lparr>u_id = users_id_seq c + 1, u_username = stored\<rparr>"
  from fresh have "?row \<notin> set (users c)" by force
  moreover from success rows
  have "createUser JSON_stringify c req res
               = (c1, Responded (res\<lparr>statusCode := 302,
                    cookie_ops := cookie_ops res @
                      [SetCookie ''user''
                         (JSON_stringify (JObj [(''id'', JNum (u_id ?row)), (''username'', JStr (u_username ?row))]))],
                    sent := Redirected ''/''\<rparr>))"
    by (simp add: createUser_def first_def js_user_def redirect_def cookie_def)
  ultimately show ?thesis using name c1
    by (intro exI [of _ ?row] exI [of _ name]) simp
qed

theorem createUser_cookie_is_inserted_row_witness:
  "createUser to_json example_client (example_request (JObj []) [] [(''username'', ''grace'')]) empty_response
     = (example_client\<lparr>users_id_seq := 3,
          users := users example_client @ [\<lparr>u_id = 3, u_username = ''grace''\<rparr>]\<rparr>,
        Responded (empty_response\<lparr>statusCode := 302,
          cookie_ops := [SetCookie ''user'' (to_json (JObj [(''id'', JNum 3), (''username'', JStr ''grace'')]))],
          sent := Redirected ''/''\<rparr>))"
proof -
  let ?req = "example_request (JObj []) [] [(''username'', ''grace'')]"
  let ?c1 = "example_client\<lparr>users_id_seq := 3,
          users := users example_client @ [\<lparr>u_id = 3, u_username = ''grace''\<rparr>]\<rparr>"
  have ins: "insert_user example_client (body ?req ''username'') = (?c1, Inr [\<lparr>u_id = 3, u_username = ''grace''\<rparr>])"
    by (simp add: insert_user_def as_text_def fits_int4_def example_client_def example_request_def
        varchar_def Let_def)
  from createUser_cookie_is_inserted_row [OF ins, of to_json empty_response]
  obtain row name where "users ?c1 = users example_client @ [row]"
    and r: "createUser to_json example_client ?req empty_response
               = (?c1, Responded (empty_response\<lparr>statusCode := 302,
                    cookie_ops := cookie_ops empty_response @
                      [SetCookie ''user''
                         (to_json (JObj [(''id'', JNum (u_id row)), (''username'', JStr (u_username row))]))],
                    sent := Redirected ''/''\<rparr>))"
    by blast
  then have "row = \<lparr>u_id = 3, u_username = ''grace''\<rparr>" by simp
  with r show ?thesis by (simp add: empty_response_def)
qed

subsection \<open>Login\<close>

text \<open>
  Claim C6, as stated, says that a login whose username no row of \<open>users\<close> has is
  answered with status 400. No row has the username that is the one character
  U+0000, yet the statement is refused for it and the answer is the error view with
  status 500.
\<close>

theorem doLogin_refused_username:
  "doLogin to_json example_client (example_request (JObj []) [] [(''username'', [CHR 0x00])]) empty_response
     = Responded \<lparr>statusCode = 500, cookie_ops = [], locals_user = JUndefined,
         sent = Rendered ''pages/error-view''
                  (ErrorModel (DatabaseError (CharacterNotInRepertoire [CHR 0x00])))\<rparr>
   \<and> map u_username (users example_client) = [''keith'', ''ada'']"
  by (simp add: doLogin_def select_user_def as_text_def handleError_def render_def status_def
      example_client_def example_request_def empty_response_def)

text \<open>
  Claim C6, amended. When the database accepts the submitted username as a text
  parameter (it holds no U+0000): if no row of \<open>users\<close> has a username equal to it,
  the login answers with status 400 and the error view, and sets no cookie; if such a
  row exists, the \<open>user\<close> cookie is set to the serialisation of the \<open>id\<close> and
  \<open>username\<close> of such a row and the response redirects to \<open>/\<close>. When the database
  refuses the username, the login answers with the error view and status 500 and sets
  no cookie.
\<close>

theorem doLogin_unknown_or_known:
  "(as_text (body req ''username'') = Inr submitted
      \<and> \<not> (\<exists>row \<in> set (users c). Some (u_username row) = submitted) \<longrightarrow>
      doLogin JSON_stringify c req res
        = Responded (res\<lparr>statusCode := 400,
            sent := Rendered ''pages/error-view'' (ErrorModel (Message ''User not found!''))\<rparr>))
   \<and> (as_text (body req ''username'') = Inr submitted
      \<and> (\<exists>row \<in> set (users c). Some (u_username row) = submitted) \<longrightarrow>
      (\<exists>row \<in> set (users c). Some (u_username row) = submitted
         \<and> doLogin JSON_stringify c req res
             = Responded (res\<lparr>statusCode := 302,
                 cookie_ops := cookie_ops res @
                   [SetCookie ''user''
                      (JSON_stringify (JObj [(''id'', JNum (u_id row)), (''username'', JStr (u_username row))]))],
                 sent := Redirected ''/''\<rparr>)))
   \<and> (as_text (body req ''username'') = Inl refused \<longrightarrow>
      doLogin JSON_stringify c req res
        = Responded (res\<lparr>statusCode := 500,
            sent := Rendered ''pages/error-view'' (ErrorModel (DatabaseError refused))\<rparr>))"
proof (intro conjI impI)
  let ?P = "\<lambda>row. sql_eq (Some (u_username row)) submitted"
  assume a: "as_text (body req ''username'') = Inr submitted
      \<and> \<not> (\<exists>row \<in> set (users c). Some (u_username row) = submitted)"
  then have "filter ?P (users c) = []"
    by (auto simp: filter_empty_conv sql_eq_def)
  with a show "doLogin JSON_stringify c req res
        = Responded (res\<lparr>statusCode := 400,
            sent := Rendered ''pages/error-view'' (ErrorModel (Message ''User not found!''))\<rparr>)"
    by (simp add: doLogin_def select_user_def first_def js_user_def render_def status_def)
next
  let ?P = "\<lambda>row. sql_eq (Some (u_username row)) submitted"
  assume a: "as_text (body req ''username'') = Inr submitted
      \<and> (\<exists>row \<in> set (users c). Some (u_username row) = submitted)"
  then obtain known where "known \<in> set (filter ?P (users c))"
    by (auto simp: sql_eq_def)
  then obtain row rest where f: "filter ?P (users c) = row # rest"
    by (cases "filter ?P (users c)") auto
  then have "row \<in> set (filter ?P (users c))" by simp
  then have row: "row \<in> set (users c)" "Some (u_username row) = submitted"
    by (auto simp: sql_eq_def)
  from a f have "doLogin JSON_stringify c req res
             = Responded (res\<lparr>statusCode := 302,
                 cookie_ops := cookie_ops res @
                   [SetCookie ''user''
                      (JSON_stringify (JObj [(''id'', JNum (u_id row)), (''username'', JStr (u_username row))]))],
                 sent := Redirected ''/''\<rparr>)"
    by (simp add: doLogin_def select_user_def first_def js_user_def redirect_def cookie_def)
  with row show "\<exists>row \<in> set (users c). Some (u_username row) = submitted
         \<and> doLogin JSON_stringify c req res
             = Responded (res\<lparr>statusCode := 302,
                 cookie_ops := cookie_ops res @
                   [SetCookie ''user''
                      (JSON_stringify (JObj [(''id'', JNum (u_id row)), (''username'', JStr (u_username row))]))],
                 sent := Redirected ''/''\<rparr>)"
    by blast
next
  assume "as_text (body req ''username'') = Inl refused"
  then show "doLogin JSON_stringify c req res
        = Responded (res\<lparr>statusCode := 500,
            sent := Rendered ''pages/error-view'' (ErrorModel (DatabaseError refused))\<rparr>)"
    by (simp add: doLogin_def select_user_def handleError_response)
qed

theorem doLogin_unknown_or_known_witness:
  "doLogin to_json example_client (example_request (JObj []) [] [(''username'', ''mallory'')]) empty_response
     = Responded \<lparr>statusCode = 400, cookie_ops = [], locals_user = JUndefined,
         sent = Rendered ''pages/error-view'' (ErrorModel (Message ''User not found!''))\<rparr>
   \<and> doLogin to_json example_client (example_request (JObj []) [] [(''username'', ''ada'')]) empty_response
     = Responded \<lparr>statusCode = 302,
         cookie_ops = [SetCookie ''user'' (to_json (JObj [(''id'', JNum 2), (''username'', JStr ''ada'')]))],
         locals_user = JUndefined, sent = Redirected ''/''\<rparr>
   \<and> doLogin to_json example_client (example_request (JObj []) [] []) empty_response
     = Responded \<lparr>statusCode = 400, cookie_ops = [], locals_user = JUndefined,
         sent = Rendered ''pages/error-view'' (ErrorModel (Message ''User not found!''))\<rparr>
   \<and> doLogin to_json example_client (example_request (JObj []) [] [(''username'', [CHR 0x00])]) empty_response
     = Responded \<lparr>statusCode = 500, cookie_ops = [], locals_user = JUndefined,
         sent = Rendered ''pages/error-view''
                  (ErrorModel (DatabaseError (CharacterNotInRepertoire [CHR 0x00])))\<rparr>"
proof -
  let ?unknown = "example_request (JObj []) [] [(''username'', ''mallory'')]"
  let ?known = "example_request (JObj []) [] [(''username'', ''ada'')]"
  let ?absent = "example_request (JObj []) [] []"
  let ?refused = "example_request (JObj []) [] [(''username'', [CHR 0x00])]"
  note defs = example_client_def example_request_def as_text_def
  have one: "doLogin to_json example_client ?unknown empty_response
        = Responded (empty_response\<lparr>statusCode := 400,
            sent := Rendered ''pages/error-view'' (ErrorModel (Message ''User not found!''))\<rparr>)"
    using doLogin_unknown_or_known [where c = example_client and req = ?unknown
        and JSON_stringify = to_json and res = empty_response and submitted = "Some ''mallory''"]
    by (simp add: defs)
  have "\<exists>row \<in> set (users example_client). Some (u_username row) = Some ''ada''
         \<and> doLogin to_json example_client ?known empty_response
             = Responded (empty_response\<lparr>statusCode := 302,
                 cookie_ops := cookie_ops empty_response @
                   [SetCookie ''user''
                      (to_json (JObj [(''id'', JNum (u_id row)), (''username'', JStr (u_username row))]))],
                 sent := Redirected ''/''\<rparr>)"
    using doLogin_unknown_or_known [where c = example_client and req = ?known
        and JSON_stringify = to_json and res = empty_response and submitted = "Some ''ada''"]
    by (simp add: defs)
  then have two: "doLogin to_json example_client ?known empty_response
             = Responded (empty_response\<lparr>statusCode := 302,
                 cookie_ops := cookie_ops empty_response @
                   [SetCookie ''user'' (to_json (JObj [(''id'', JNum 2), (''username'', JStr ''ada'')]))],
                 sent := Redirected ''/''\<rparr>)"
    by (auto simp: defs)
  have three: "doLogin to_json example_client ?absent empty_response
        = Responded (empty_response\<lparr>statusCode := 400,
            sent := Rendered ''pages/error-view'' (ErrorModel (Message ''User not found!''))\<rparr>)"
    using doLogin_unknown_or_known [where c = example_client and req = ?absent
        and JSON_stringify = to_json and res = empty_response and submitted = None]
    by (simp add: defs)
  have four: "doLogin to_json example_client ?refused empty_response
        = Responded (empty_response\<lparr>statusCode := 500,
            sent := Rendered ''pages/error-view''
                      (ErrorModel (DatabaseError (CharacterNotInRepertoire [CHR 0x00])))\<rparr>)"
    using doLogin_unknown_or_known [where c = example_client and req = ?refused
        and JSON_stringify = to_json and res = empty_response
        and refused = "CharacterNotInRepertoire [CHR 0x00]"]
    by (simp add: defs)
  from one two three four show ?thesis by (simp add: empty_response_def)
qed

subsection \<open>Identity resolution\<close>

text \<open>
  Claim C7. The identity middleware always calls \<open>next\<close> without an error, whatever
  the \<open>user\<close> cookie holds; the identity it resolves is stored in \<open>request.user\<close> and
  in \<open>response.locals.user\<close>. With no cookie (or an empty one) and with a cookie that
  \<open>JSON.parse\<close> rejects, the identity is the empty object, which has no \<open>id\<close>; in the
  second case a warning is written to the console. A cookie that parses resolves to
  its value, or to the empty object when that value is falsy.
\<close>

theorem identity_middleware_never_fails:
  "\<exists>u console.
      identity_middleware JSON_parse req res = (req\<lparr>user := u\<rparr>, res\<lparr>locals_user := u\<rparr>, console, Next)
      \<and> truthy u
      \<and> (cookies req ''user'' = None \<or> cookies req ''user'' = Some [] \<longrightarrow>
           u = JObj [] \<and> js_get u ''id'' = Inr JUndefined \<and> console = [Log ''user'' (JObj [])])
      \<and> (\<forall>s. cookies req ''user'' = Some s \<and> s \<noteq> [] \<and> JSON_parse s = None \<longrightarrow>
           u = JObj [] \<and> js_get u ''id'' = Inr JUndefined
           \<and> console = [Warn ''error parsing user cookie'' (SyntaxError s)])
      \<and> (\<forall>s v. cookies req ''user'' = Some s \<and> s \<noteq> [] \<and> JSON_parse s = Some v \<longrightarrow>
           u = (if truthy v then v else JObj []) \<and> console = [Log ''user'' u])"
proof (cases "cookies req ''user''")
  case None
  then show ?thesis
    by (simp add: identity_middleware_def and_parse_def)
next
  case (Some s)
  show ?thesis
  proof (cases "s = []")
    case True
    with Some show ?thesis
      by (simp add: identity_middleware_def and_parse_def)
  next
    case False
    with Some show ?thesis
      by (cases "JSON_parse s") (simp_all add: identity_middleware_def and_parse_def)
  qed
qed

theorem identity_middleware_never_fails_witness:
  "identity_middleware example_parse (cookie_request []) empty_response
     = ((cookie_request [])\<lparr>user := JObj []\<rparr>, empty_response\<lparr>locals_user := JObj []\<rparr>,
        [Log ''user'' (JObj [])], Next)
   \<and> identity_middleware example_parse (cookie_request [(''user'', ''{id:'')]) empty_response
     = ((cookie_request [(''user'', ''{id:'')])\<lparr>user := JObj []\<rparr>, empty_response\<lparr>locals_user := JObj []\<rparr>,
        [Warn ''error parsing user cookie'' (SyntaxError ''{id:'')], Next)
   \<and> identity_middleware example_parse (cookie_request [(''user'', to_json keith)]) empty_response
     = ((cookie_request [(''user'', to_json keith)])\<lparr>user := keith\<rparr>, empty_response\<lparr>locals_user := keith\<rparr>,
        [Log ''user'' keith], Next)"
proof -
  note defs = cookie_request_def example_parse_def keith_def quoted_def decimal_def digit_char_def
  have one: "identity_middleware example_parse (cookie_request []) empty_response
     = ((cookie_request [])\<lparr>user := JObj []\<rparr>, empty_response\<lparr>locals_user := JObj []\<rparr>,
        [Log ''user'' (JObj [])], Next)"
    using identity_middleware_never_fails [of example_parse "cookie_request []" empty_response]
    by (auto simp: defs)
  have two: "identity_middleware example_parse (cookie_request [(''user'', ''{id:'')]) empty_response
     = ((cookie_request [(''user'', ''{id:'')])\<lparr>user := JObj []\<rparr>, empty_response\<lparr>locals_user := JObj []\<rparr>,
        [Warn ''error parsing user cookie'' (SyntaxError ''{id:'')], Next)"
    using identity_middleware_never_fails [of example_parse "cookie_request [(''user'', ''{id:'')]" empty_response]
    by (auto simp: defs)
  have three: "identity_middleware example_parse (cookie_request [(''user'', to_json keith)]) empty_response
     = ((cookie_request [(''user'', to_json keith)])\<lparr>user := keith\<rparr>, empty_response\<lparr>locals_user := keith\<rparr>,
        [Log ''user'' keith], Next)"
    using identity_middleware_never_fails [of example_parse "cookie_request [(''user'', to_json keith)]" empty_response]
    by (auto simp: defs)
  from one two three show ?thesis by simp
qed

subsection \<open>The catch-all route\<close>

text \<open>
  Claim C9, as stated, says that the catch-all answers every request that matches no
  other route. It is registered for GET only: the request \<open>POST /nope\<close> matches no
  route at all, the catch-all included.
\<close>

theorem catch_all_skips_other_methods:
  "find_route named_routes POST [''nope''] = None \<and> route POST [''nope''] = None"
  by (simp add: route_def routes_def named_routes_def lower_char_def)

text \<open>
  Claim C9, amended. A GET or HEAD request whose path matches none of the GET routes
  registered before the catch-all is routed to the catch-all, which sets status 404
  and sends the text \<open>This route does not exist\<close>.
\<close>

theorem catch_all_answers_unmatched_get:
  assumes "m = GET \<or> m = HEAD"
      and "find_route named_routes GET path = None"
  shows "route m path = Some (CatchAll, [])
       \<and> catch_all req res = res\<lparr>statusCode := 404, sent := SentText ''This route does not exist''\<rparr>"
  using assms
  by (auto simp: route_def routes_def find_route_append catch_all_def send_def status_def)

theorem catch_all_answers_unmatched_get_witness:
  "route GET [''nope''] = Some (CatchAll, [])
   \<and> route HEAD [''tasks'', ''1'', ''edit'', ''now''] = Some (CatchAll, [])
   \<and> catch_all (cookie_request []) empty_response
       = \<lparr>statusCode = 404, cookie_ops = [], locals_user = JUndefined,
          sent = SentText ''This route does not exist''\<rparr>"
proof -
  have one: "route GET [''nope''] = Some (CatchAll, [])"
    using catch_all_answers_unmatched_get [of GET "[''nope'']"]
    by (simp add: named_routes_def lower_char_def)
  have two: "route HEAD [''tasks'', ''1'', ''edit'', ''now''] = Some (CatchAll, [])"
    using catch_all_answers_unmatched_get [of HEAD "[''tasks'', ''1'', ''edit'', ''now'']"]
    by (simp add: named_routes_def lower_char_def)
  have three: "catch_all (cookie_request []) empty_response
       = empty_response\<lparr>statusCode := 404, sent := SentText ''This route does not exist''\<rparr>"
    using catch_all_answers_unmatched_get [of GET "[''nope'']" "cookie_request []" empty_response]
    by (simp add: named_routes_def lower_char_def)
  from one two three show ?thesis by (simp add: empty_response_def)
qed


end
